theory Spec2Isabelle
  imports Main
begin

section \<open>JavaScript values\<close>

text \<open>
  The library passes plain JavaScript data around: response bodies, variable maps,
  header maps, the state snapshot, and callbacks. A plain object is an association
  list in property order; a function value carries its \<open>name\<close> property (empty for an
  anonymous function) and a number that tells distinct function values of one name apart.
  Callbacks are opaque: calling one is recorded as an event and yields \<open>undefined\<close>.
\<close>

datatype func = Fn string nat

datatype jsval =
    JUndefined
  | JNull
  | JBool bool
  | JNum int
  | JStr string
  | JArr "jsval list"
  | JObj "(string \<times> jsval) list"
  | JFun func

type_synonym jsobj = "(string \<times> jsval) list"

datatype jserror = TypeError | ReferenceError string | Error string

fun fname :: "func \<Rightarrow> string" where
  "fname (Fn n i) = n"

text \<open>Truthiness, as \<open>!x\<close>, \<open>x && y\<close>, \<open>x || y\<close> and \<open>if (x)\<close> read a value.\<close>

fun truthy :: "jsval \<Rightarrow> bool" where
  "truthy JUndefined = False"
| "truthy JNull = False"
| "truthy (JBool b) = b"
| "truthy (JNum n) = (n \<noteq> 0)"
| "truthy (JStr s) = (s \<noteq> [])"
| "truthy (JArr xs) = True"
| "truthy (JObj ps) = True"
| "truthy (JFun f) = True"

fun nullish :: "jsval \<Rightarrow> bool" where
  "nullish JUndefined = True"
| "nullish JNull = True"
| "nullish v = False"

fun isFunction :: "jsval \<Rightarrow> bool" where
  "isFunction (JFun f) = True"
| "isFunction v = False"

fun isArray :: "jsval \<Rightarrow> bool" where
  "isArray (JArr xs) = True"
| "isArray v = False"

text \<open>
  Underscore's \<open>_.isEmpty\<close>: \<open>null\<close> and \<open>undefined\<close> are empty, an array or a string
  is empty when its length is 0, any other value when it has no enumerable own key
  (so numbers, booleans and functions are empty).
\<close>

fun isEmpty :: "jsval \<Rightarrow> bool" where
  "isEmpty (JStr s) = (s = [])"
| "isEmpty (JArr xs) = (xs = [])"
| "isEmpty (JObj ps) = (ps = [])"
| "isEmpty v = True"

text \<open>
  Reading and writing a property of a plain object: \<open>o[k]\<close> and \<open>o[k] = v\<close>. A read
  of a key the object does not own finds the members every plain object inherits from
  \<open>Object.prototype\<close>: the function \<open>Object\<close> under \<open>constructor\<close>, the prototype
  object under \<open>__proto__\<close>, and a function under each of the other names.
\<close>

definition inherited :: "string \<Rightarrow> jsval" where
  "inherited k =
     (if k = ''constructor'' then JFun (Fn ''Object'' 0)
      else if k = ''__proto__'' then JObj []
      else if k \<in> set [''toString'', ''toLocaleString'', ''valueOf'', ''hasOwnProperty'',
                         ''isPrototypeOf'', ''propertyIsEnumerable'', ''__defineGetter__'',
                         ''__defineSetter__'', ''__lookupGetter__'', ''__lookupSetter__'']
      then JFun (Fn k 0)
      else JUndefined)"

fun obj_get :: "jsobj \<Rightarrow> string \<Rightarrow> jsval" where
  "obj_get [] k = inherited k"
| "obj_get ((k', v) # ps) k = (if k' = k then v else obj_get ps k)"

fun obj_set :: "jsobj \<Rightarrow> string \<Rightarrow> jsval \<Rightarrow> jsobj" where
  "obj_set [] k v = [(k, v)]"
| "obj_set ((k', v') # ps) k v = (if k' = k then (k, v) # ps else (k', v') # obj_set ps k v)"

text \<open>\<open>x.k\<close> on a value that is neither \<open>null\<close> nor \<open>undefined\<close>. Of a value that
  is not a plain object the code reads the keys \<open>data\<close>, \<open>error\<close>, \<open>errors\<close>,
  \<open>message\<close>, \<open>serverError\<close>, \<open>type\<close> and \<open>value\<close>, which no such value has.\<close>

fun property :: "jsval \<Rightarrow> string \<Rightarrow> jsval" where
  "property (JObj ps) k = obj_get ps k"
| "property v k = JUndefined"

section \<open>The binding of the utility layer\<close>

text \<open>
  utils imports underscore, adds \<open>devAssert\<close> to it and ends with \<open>export default _\<close>;
  it has no named export. query.jsx and client.js bind it with
  \<open>import * as _ from "./utils"\<close>. By the module semantics of the language \<open>_\<close> is then
  the namespace object of utils, whose one property is \<open>default\<close>: \<open>_.isEmpty\<close>,
  \<open>_.devAssert\<close>, \<open>_.findIndex\<close>, \<open>_.keys\<close>, \<open>_.isArray\<close>, \<open>_.isFunction\<close> and
  \<open>_.extend\<close> are \<open>undefined\<close>, and a call of one throws a TypeError. Only a bundler
  interop that hands the default export over in place of the namespace binds \<open>_\<close> to
  underscore in these two files. The build is not part of the sources, so the binding is
  a parameter of every function of query.jsx and client.js that uses \<open>_\<close>:
  \<open>Namespace\<close> is the language's own semantics, \<open>Interop\<close> binds underscore.
  query-state imports the default export (\<open>import _ from "./utils"\<close>): there \<open>_\<close> is
  underscore under either build.
\<close>

datatype import_binding = Namespace | Interop

section \<open>The query registry (query.jsx)\<close>

text \<open>
  \<open>set\<close> stores the object literal \<open>{name: nameOrAlias, query, args}\<close>. The array
  \<open>this.queries\<close> can hold empty slots, because \<open>unset\<close> removes an element with
  \<open>delete\<close>: a slot is \<open>None\<close> when it is a hole.
\<close>

record query_entry =
  name :: string
  query :: string
  args :: jsval

record registry =
  errors :: jsobj
  queries :: "query_entry option list"
  directives :: "string list"
  successCallbacks :: jsobj
  errorCallbacks :: jsobj

text \<open>
  The object handed to \<open>set\<close>, \<open>gqlQuery\<close> and \<open>gqlMutator\<close>. \<open>set\<close> destructures
  \<open>{nameOrAlias, args = {}, query, onSuccess, onError}\<close> from it; the single-shot
  runners also read its \<open>name\<close> property. An absent string property is \<open>None\<close>,
  an absent value property is \<open>JUndefined\<close>.
\<close>

record query_object =
  q_nameOrAlias :: "string option"
  q_name :: "string option"
  q_args :: jsval
  q_query :: "string option"
  q_onSuccess :: jsval
  q_onError :: jsval

datatype 'a reference = Null | Undefined | Object 'a

definition reset :: registry where
  "reset = \<lparr>errors = [], queries = [], directives = [], successCallbacks = [],
             errorCallbacks = []\<rparr>"

definition hasQueries :: "registry \<Rightarrow> bool" where
  "hasQueries r = (length (queries r) > 0)"

text \<open>
  Underscore's \<open>_.findIndex(array, {name: n})\<close>: the index of the first element whose
  \<open>name\<close> is \<open>n\<close>, or \<open>-1\<close>. A hole reads as \<open>undefined\<close>, which matches nothing.
\<close>

fun isMatch :: "query_entry option \<Rightarrow> string \<Rightarrow> bool" where
  "isMatch None n = False"
| "isMatch (Some e) n = (name e = n)"

fun findIndex_from :: "nat \<Rightarrow> query_entry option list \<Rightarrow> string \<Rightarrow> int" where
  "findIndex_from i [] n = - 1"
| "findIndex_from i (x # xs) n = (if isMatch x n then int i else findIndex_from (Suc i) xs n)"

definition findIndex :: "query_entry option list \<Rightarrow> string \<Rightarrow> int" where
  "findIndex xs n = findIndex_from 0 xs n"

text \<open>\<open>array[pos]\<close> for an integer \<open>pos\<close>: \<open>undefined\<close> outside the array and at a hole.\<close>

definition element :: "query_entry option list \<Rightarrow> int \<Rightarrow> query_entry reference" where
  "element xs pos =
     (if 0 \<le> pos \<and> nat pos < length xs
      then (case xs ! nat pos of None \<Rightarrow> Undefined | Some e \<Rightarrow> Object e)
      else Undefined)"

text \<open>\<open>delete array[pos]\<close>: leaves a hole at an index of the array, nothing otherwise.\<close>

definition delete_element :: "query_entry option list \<Rightarrow> int \<Rightarrow> query_entry option list" where
  "delete_element xs pos =
     (if 0 \<le> pos \<and> nat pos < length xs then xs[nat pos := None] else xs)"

text \<open>
  \<open>get(nameOrAlias)\<close>: \<open>const pos = _.findIndex(this.queries, {name: nameOrAlias});\<close>
  \<open>if (!pos) return null; return this.queries[pos];\<close>.
  \<open>!pos\<close> is true exactly for \<open>pos = 0\<close>. The call of \<open>_.findIndex\<close> comes first.
\<close>

definition GQLQuery_get ::
  "import_binding \<Rightarrow> registry \<Rightarrow> string \<Rightarrow> jserror + query_entry reference" where
  "GQLQuery_get b r n =
     (case b of
        Namespace \<Rightarrow> Inl TypeError
      | Interop \<Rightarrow>
          (let pos = findIndex (queries r) n
           in if pos = 0 then Inr Null else Inr (element (queries r) pos)))"

text \<open>\<open>unset(nameOrAlias)\<close>: the same lookup, then
  \<open>if (!pos) return; delete this.queries[pos];\<close>.\<close>

definition GQLQuery_unset :: "import_binding \<Rightarrow> registry \<Rightarrow> string \<Rightarrow> jserror + registry" where
  "GQLQuery_unset b r n =
     (case b of
        Namespace \<Rightarrow> Inl TypeError
      | Interop \<Rightarrow>
          (let pos = findIndex (queries r) n
           in if pos = 0 then Inr r
              else Inr (r\<lparr>queries := delete_element (queries r) pos\<rparr>)))"

text \<open>
  \<open>_.devAssert(condition, message)\<close> throws \<open>Error(message)\<close> unless the condition
  is truthy. \<open>set\<close> asserts \<open>!_.isEmpty(nameOrAlias)\<close> and \<open>!_.isEmpty(query)\<close>
  before it changes anything; an absent property and the empty string are empty.
  Then it stores the callbacks that are truthy, looks the name up, and writes
  \<open>this.queries[pos]\<close> with \<open>pos = this.queries.length\<close> when \<open>pos < 0\<close>.
  The first statement already calls \<open>_.isEmpty\<close>.
\<close>

definition GQLQuery_set :: "import_binding \<Rightarrow> registry \<Rightarrow> query_object \<Rightarrow> jserror + registry" where
  "GQLQuery_set b r q =
     (case b of
        Namespace \<Rightarrow> Inl TypeError
      | Interop \<Rightarrow>
         (case q_nameOrAlias q of
            None \<Rightarrow> Inl (Error ''Missing query name!'')
          | Some n \<Rightarrow>
             if n = [] then Inl (Error ''Missing query name!'')
             else
              (case q_query q of
                 None \<Rightarrow> Inl (Error ''Missing query definition!'')
               | Some text \<Rightarrow>
                  if text = [] then Inl (Error ''Missing query definition!'')
                  else
                    let a = (if q_args q = JUndefined then JObj [] else q_args q);
                        r1 = (if truthy (q_onSuccess q)
                              then r\<lparr>successCallbacks :=
                                       obj_set (successCallbacks r) n (q_onSuccess q)\<rparr>
                              else r);
                        r2 = (if truthy (q_onError q)
                              then r1\<lparr>errorCallbacks :=
                                        obj_set (errorCallbacks r1) n (q_onError q)\<rparr>
                              else r1);
                        pos = findIndex (queries r2) n;
                        e = \<lparr>name = n, query = text, args = a\<rparr>
                    in if pos < 0 then Inr (r2\<lparr>queries := queries r2 @ [Some e]\<rparr>)
                       else Inr (r2\<lparr>queries := (queries r2)[nat pos := Some e]\<rparr>))))"

subsection \<open>The class members and the constructor\<close>

text \<open>
  The members the class body of \<open>GQLQuery\<close> defines. \<open>GQLMutation extends Query\<close>
  adds only its own \<open>__send\<close> and inherits the constructor.
\<close>

definition GQLQuery_members :: "string list" where
  "GQLQuery_members =
     [''constructor'', ''reset'', ''hasQueries'', ''get'', ''set'', ''unset'', ''exec'',
      ''__send'', ''__handleErrorResponse'', ''__serverError'', ''__handleResponse'',
      ''__execErrors'', ''__execSuccess'', ''__getQuery'']"

definition GQLMutation_members :: "string list" where
  "GQLMutation_members = ''__send'' # GQLQuery_members"

text \<open>
  The constructor runs \<open>this.reset()\<close> and then
  \<open>this.handleErrorResponse = this.handleErrorResponse.bind(this)\<close> and
  \<open>this.handleResponse = this.handleResponse.bind(this)\<close>. Reading a member the class
  does not define gives \<open>undefined\<close>, and \<open>undefined.bind\<close> throws a TypeError.
\<close>

definition construct :: "string list \<Rightarrow> jserror + registry" where
  "construct members =
     (let this = reset
      in if ''handleErrorResponse'' \<in> set members
         then (if ''handleResponse'' \<in> set members then Inr this else Inl TypeError)
         else Inl TypeError)"

subsection \<open>The client (client.js) and the transport\<close>

text \<open>
  \<open>GQLConfig\<close> copies its options onto \<open>GQLClient.prototype\<close>, one object for the
  whole process; every \<open>new GQLClient()\<close> reads \<open>url\<close> and \<open>headers\<close> from it.
  The record is that prototype: \<open>None\<close> is a property that was never configured.
  \<open>Request\<close> (request.js) is the transport; a call of it is recorded with what it is
  given: the method, the url, the payload \<open>{query, variables}\<close> and the \<open>headers\<close>
  object passed to \<open>Request({headers})\<close>. How its promise settles is an input.
\<close>

record client =
  url :: "string option"
  headers :: "jsobj option"

datatype http_method = GET | POST

datatype request = Request http_method string string "jsobj option" jsobj

datatype event = Sent request | Invoked jsval "jsval list"

datatype transport_result = Resolves jsval | Rejects jsval

text \<open>\<open>_.extend(destination, source)\<close> copies every property of the source onto the
  destination object itself and returns it.\<close>

fun underscore_extend :: "jsobj \<Rightarrow> jsobj \<Rightarrow> jsobj" where
  "underscore_extend d [] = d"
| "underscore_extend d ((k, v) # ps) = underscore_extend (obj_set d k v) ps"

text \<open>
  \<open>GQLClientQuery({headers, query})\<close>: throws when no url is configured; otherwise
  \<open>headers = headers || {}\<close>, then \<open>_.extend(client.headers, headers)\<close> (whose
  destination is the configured headers object, and which returns \<open>undefined\<close> without
  effect when none is configured), then \<open>Request({headers}).get(client.url, query)\<close>.
  Where \<open>_.extend\<close> is \<open>undefined\<close> the call throws before the request is made.
\<close>

definition GQLClientQuery ::
  "import_binding \<Rightarrow> client \<Rightarrow> jsobj option \<Rightarrow> string \<Rightarrow> jsobj option
     \<Rightarrow> jserror + client \<times> request" where
  "GQLClientQuery b c hdrs text vars =
     (case url c of
        None \<Rightarrow> Inl (Error ''GQL is not configured!'')
      | Some u \<Rightarrow>
          if u = [] then Inl (Error ''GQL is not configured!'')
          else
            (case b of
               Namespace \<Rightarrow> Inl TypeError
             | Interop \<Rightarrow>
                 let h = (case hdrs of None \<Rightarrow> [] | Some x \<Rightarrow> x);
                     c' = (case headers c of
                             None \<Rightarrow> c
                           | Some configured \<Rightarrow>
                               c\<lparr>headers := Some (underscore_extend configured h)\<rparr>)
                 in Inr (c', Request GET u text vars h)))"

text \<open>\<open>GQLClientMutation\<close> is the same with \<open>Request({headers}).post\<close>.\<close>

definition GQLClientMutation ::
  "import_binding \<Rightarrow> client \<Rightarrow> jsobj option \<Rightarrow> string \<Rightarrow> jsobj option
     \<Rightarrow> jserror + client \<times> request" where
  "GQLClientMutation b c hdrs text vars =
     (case url c of
        None \<Rightarrow> Inl (Error ''GQL is not configured!'')
      | Some u \<Rightarrow>
          if u = [] then Inl (Error ''GQL is not configured!'')
          else
            (case b of
               Namespace \<Rightarrow> Inl TypeError
             | Interop \<Rightarrow>
                 let h = (case hdrs of None \<Rightarrow> [] | Some x \<Rightarrow> x);
                     c' = (case headers c of
                             None \<Rightarrow> c
                           | Some configured \<Rightarrow>
                               c\<lparr>headers := Some (underscore_extend configured h)\<rparr>)
                 in Inr (c', Request POST u text vars h)))"

subsection \<open>Response dispatch\<close>

text \<open>The enumerable own properties of a value, with their values, in key order.
  An array's keys are its indices in decimal. \<open>_.keys\<close> gives no key for a value that
  is not an object; \<open>Object.keys\<close> gives a string's indices.\<close>

fun decimal :: "nat \<Rightarrow> string" where
  "decimal n = (if n < 10 then [''0123456789'' ! n]
                else decimal (n div 10) @ [''0123456789'' ! (n mod 10)])"

declare decimal.simps [simp del]

definition indexed :: "jsval list \<Rightarrow> (string \<times> jsval) list" where
  "indexed xs = zip (map decimal [0..<length xs]) xs"

fun underscore_keys :: "jsval \<Rightarrow> (string \<times> jsval) list" where
  "underscore_keys (JObj ps) = ps"
| "underscore_keys (JArr xs) = indexed xs"
| "underscore_keys v = []"

fun Object_keys :: "jsval \<Rightarrow> (string \<times> jsval) list" where
  "Object_keys (JObj ps) = ps"
| "Object_keys (JArr xs) = indexed xs"
| "Object_keys (JStr s) = indexed (map (\<lambda>c. JStr [c]) s)"
| "Object_keys v = []"

text \<open>\<open>f.call(null, x, ...)\<close>: a TypeError unless \<open>f\<close> is a function.\<close>

definition invoke :: "jsval \<Rightarrow> jsval list \<Rightarrow> event list \<times> (jserror + jsval)" where
  "invoke f xs = (if isFunction f then ([Invoked f xs], Inr JUndefined) else ([], Inl TypeError))"

text \<open>
  \<open>__serverError(errors)\<close>: \<open>err = errors.pop()\<close>, then
  \<open>this.errors.serverError = {message: err.message, code: "serverError"}\<close>, and the
  result is \<open>[this.errors]\<close>. Only an array has \<open>pop\<close>; an empty array pops
  \<open>undefined\<close>, whose \<open>message\<close> cannot be read.
\<close>

definition GQLQuery_serverError :: "registry \<Rightarrow> jsval \<Rightarrow> jserror + registry \<times> jsval" where
  "GQLQuery_serverError this errs =
     (case errs of
        JArr xs \<Rightarrow>
          (let err = (if xs = [] then JUndefined else last xs)
           in if nullish err then Inl TypeError
              else
                let es = obj_set (errors this) ''serverError''
                           (JObj [(''message'', property err ''message''),
                                  (''code'', JStr ''serverError'')])
                in Inr (this\<lparr>errors := es\<rparr>, JArr [JObj es]))
      | _ \<Rightarrow> Inl TypeError)"

text \<open>
  \<open>__execErrors(errors)\<close> and \<open>__execSuccess(data)\<close>: for every key of the map, skip
  it when \<open>callbacks[key]\<close> is falsy, else call \<open>callbacks[key].call(null, map[key], this)\<close>
  (the instance argument is not recorded).
\<close>

fun execCallbacks :: "jsobj \<Rightarrow> (string \<times> jsval) list \<Rightarrow> event list \<times> jserror option" where
  "execCallbacks cbs [] = ([], None)"
| "execCallbacks cbs ((k, v) # ps) =
     (let cb = obj_get cbs k
      in if truthy cb
         then (if isFunction cb
               then (case execCallbacks cbs ps of (evs, e) \<Rightarrow> (Invoked cb [v] # evs, e))
               else ([], Some TypeError))
         else execCallbacks cbs ps)"

text \<open>
  \<open>__handleResponse(res)\<close>, with the value of \<open>this\<close> it is called on (\<open>None\<close> when
  it is called as a bare function: class bodies are strict, so \<open>this\<close> is then
  \<open>undefined\<close>, and every path of the body reads a member of \<open>this\<close> or destructures an
  absent \<open>res.data\<close> before it has any effect). For a truthy \<open>res\<close> the body first
  calls \<open>_.isArray(res)\<close>; it destructures \<open>{data = {}, error = {}, errors}\<close> from
  \<open>res.data\<close>; \<open>__execErrors\<close> and \<open>__execSuccess\<close> call \<open>_.keys\<close>.
\<close>

definition default_object :: "jsval \<Rightarrow> jsval" where
  "default_object v = (if v = JUndefined then JObj [] else v)"

definition GQLQuery_handleResponse ::
  "import_binding \<Rightarrow> registry option \<Rightarrow> jsval
     \<Rightarrow> event list \<times> (jserror + registry \<times> jsval)" where
  "GQLQuery_handleResponse b this_opt res =
     (case this_opt of
        None \<Rightarrow> ([], Inl TypeError)
      | Some this \<Rightarrow>
          if truthy res then
            (case b of
               Namespace \<Rightarrow> ([], Inl TypeError)
             | Interop \<Rightarrow>
                if isArray res then ([], GQLQuery_serverError this res)
                else
                  let body = property res ''data''
                  in if nullish body then ([], Inl TypeError)
                     else
                       let data = default_object (property body ''data'');
                           error = default_object (property body ''error'');
                           errs = property body ''errors''
                       in if truthy errs then ([], GQLQuery_serverError this errs)
                          else
                            (case execCallbacks (errorCallbacks this) (underscore_keys error) of
                               (evs1, Some e) \<Rightarrow> (evs1, Inl e)
                             | (evs1, None) \<Rightarrow>
                                 (case execCallbacks (successCallbacks this)
                                         (underscore_keys data) of
                                    (evs2, Some e) \<Rightarrow> (evs1 @ evs2, Inl e)
                                  | (evs2, None) \<Rightarrow>
                                      (evs1 @ evs2,
                                       Inr (this, JArr [JObj (errors this), data])))))
          else
            ([], GQLQuery_serverError this
                   (JArr [JObj [(''message'',
                                 JStr ''Something went wrong. Unable to process request!''),
                                (''code'', JStr ''serverError'')]])))"

text \<open>
  \<open>__handleErrorResponse(err)\<close> is \<open>return this.serverError([err])\<close>. The class has
  \<open>__serverError\<close> but no member \<open>serverError\<close>, so the call throws a TypeError on an
  instance, and so does reading \<open>this.serverError\<close> when \<open>this\<close> is \<open>undefined\<close>.
\<close>

definition GQLQuery_handleErrorResponse ::
  "registry option \<Rightarrow> jsval \<Rightarrow> event list \<times> (jserror + registry \<times> jsval)" where
  "GQLQuery_handleErrorResponse this_opt err = ([], Inl TypeError)"

subsection \<open>Composing and sending the request\<close>

text \<open>
  \<open>__getQuery(query, queries, queryArgs, vars, variables)\<close> begins with
  \<open>if (!args || _.isEmpty(args))\<close> and builds \<open>`${name}_${key}`\<close>, but \<open>args\<close> and
  \<open>name\<close> are neither parameters nor variables of the module: they are free
  identifiers, resolved in the global object, and reading one that is not defined there
  throws a ReferenceError. What the global object binds them to is a parameter
  (\<open>None\<close>: not defined). The parameter \<open>query\<close> is the stored entry object itself,
  not its text. \<open>_.isEmpty(args)\<close> is called only when \<open>args\<close> is truthy.

  When the global \<open>args\<close> is truthy and not empty, the loop over \<open>Object.keys(args)\<close>
  starts and its first round throws: \<open>const {type, value} = args[key]\<close> fails on
  \<open>null\<close> and \<open>undefined\<close>; the template reads \<open>name\<close>; a function \<open>value\<close> is
  called and the assignment of its result to the constant \<open>value\<close> fails; and otherwise
  \<open>type.match\<close> fails on a \<open>type\<close> that is not a string, or at last
  \<open>query.replace\<close> fails because the entry object has no such method.
\<close>

type_synonym collected = "query_entry list \<times> (string \<times> string) list \<times> jsobj"

definition getQuery_first_round :: "jsval option \<Rightarrow> jsval \<Rightarrow> event list \<times> jserror" where
  "getQuery_first_round gname arg =
     (if nullish arg then ([], TypeError)
      else if gname = None then ([], ReferenceError ''name'')
      else if truthy (property arg ''value'') \<and> isFunction (property arg ''value'')
      then ([Invoked (property arg ''value'') []], TypeError)
      else ([], TypeError))"

definition GQLQuery_getQuery ::
  "import_binding \<Rightarrow> jsval option \<Rightarrow> jsval option \<Rightarrow> query_entry \<Rightarrow> collected \<Rightarrow> jsobj
     \<Rightarrow> event list \<times> (jserror + collected)" where
  "GQLQuery_getQuery b gargs gname q acc variables =
     (case acc of (qs, queryArgs, vars) \<Rightarrow>
       (case gargs of
          None \<Rightarrow> ([], Inl (ReferenceError ''args''))
        | Some a \<Rightarrow>
            if truthy a then
              (case b of
                 Namespace \<Rightarrow> ([], Inl TypeError)
               | Interop \<Rightarrow>
                  if isEmpty a then ([], Inr (qs @ [q], queryArgs, vars))
                  else
                    (case Object_keys a of
                       [] \<Rightarrow> ([], Inr (qs @ [q], queryArgs, vars))
                     | (key, arg) # rest \<Rightarrow>
                         (case getQuery_first_round gname arg of (evs, e) \<Rightarrow> (evs, Inl e))))
            else ([], Inr (qs @ [q], queryArgs, vars))))"

text \<open>\<open>this.queries.map(query => this.__getQuery(...))\<close>: \<open>map\<close> skips the holes and
  stops at the first exception.\<close>

fun getQueries ::
  "import_binding \<Rightarrow> jsval option \<Rightarrow> jsval option \<Rightarrow> jsobj \<Rightarrow> query_entry option list
     \<Rightarrow> collected \<Rightarrow> event list \<times> (jserror + collected)" where
  "getQueries b gargs gname variables [] acc = ([], Inr acc)"
| "getQueries b gargs gname variables (None # xs) acc =
     getQueries b gargs gname variables xs acc"
| "getQueries b gargs gname variables (Some q # xs) acc =
     (case GQLQuery_getQuery b gargs gname q acc variables of
        (evs, Inl e) \<Rightarrow> (evs, Inl e)
      | (evs, Inr acc') \<Rightarrow>
          (case getQueries b gargs gname variables xs acc' of
             (evs', res) \<Rightarrow> (evs @ evs', res)))"

text \<open>What a call leaves behind and how it ends: with an exception thrown out of the
  call, or with a promise that is fulfilled or rejected.\<close>

datatype outcome = Threw jserror | Fulfilled jsval | Rejected jserror

record run =
  client_after :: client
  events :: "event list"
  outcome :: outcome

record exec_run = run +
  this_after :: registry

text \<open>
  The promise chain \<open>.catch(this.__handleErrorResponse).then(this.__handleResponse)\<close>
  of both \<open>__send\<close> methods. The two handlers are handed over as bare functions, so
  the promise calls them with \<open>this\<close> undefined. A handler that throws rejects the
  promise; \<open>then\<close> runs its handler only on a fulfilled promise.
\<close>

definition settle ::
  "import_binding \<Rightarrow> registry \<Rightarrow> transport_result \<Rightarrow> registry \<times> event list \<times> outcome" where
  "settle b this tr =
     (case tr of
        Resolves res \<Rightarrow>
          (case GQLQuery_handleResponse b None res of
             (evs, Inl e) \<Rightarrow> (this, evs, Rejected e)
           | (evs, Inr (this', v)) \<Rightarrow> (this', evs, Fulfilled v))
      | Rejects err \<Rightarrow>
          (case GQLQuery_handleErrorResponse None err of
             (evs, Inl e) \<Rightarrow> (this, evs, Rejected e)
           | (evs, Inr (this', res)) \<Rightarrow>
               (case GQLQuery_handleResponse b None res of
                  (evs', Inl e) \<Rightarrow> (this', evs @ evs', Rejected e)
                | (evs', Inr (this'', v)) \<Rightarrow> (this'', evs @ evs', Fulfilled v))))"

text \<open>\<open>GQLQuery.__send\<close>: \<open>this.errors = {}\<close>, then
  \<open>GQLClientQuery({headers, query: {query: `query ${query}`, variables}})\<close> and the chain.\<close>

definition GQLQuery_send ::
  "import_binding \<Rightarrow> registry \<Rightarrow> client \<Rightarrow> jsobj option \<Rightarrow> string \<Rightarrow> jsobj option
     \<Rightarrow> transport_result \<Rightarrow> exec_run" where
  "GQLQuery_send b this c hdrs text vars tr =
     (let this1 = this\<lparr>errors := []\<rparr>
      in case GQLClientQuery b c hdrs (''query '' @ text) vars of
           Inl e \<Rightarrow> \<lparr>client_after = c, events = [], outcome = Threw e, this_after = this1\<rparr>
         | Inr (c', req) \<Rightarrow>
             (case settle b this1 tr of
                (this2, evs, out) \<Rightarrow>
                  \<lparr>client_after = c', events = Sent req # evs, outcome = out,
                   this_after = this2\<rparr>))"

text \<open>\<open>GQLMutation.__send\<close>: \<open>GQLClientMutation\<close> with \<open>`mutation ${query}`\<close>; it does
  not clear \<open>this.errors\<close>.\<close>

definition GQLMutation_send ::
  "import_binding \<Rightarrow> registry \<Rightarrow> client \<Rightarrow> jsobj option \<Rightarrow> string \<Rightarrow> jsobj option
     \<Rightarrow> transport_result \<Rightarrow> exec_run" where
  "GQLMutation_send b this c hdrs text vars tr =
     (case GQLClientMutation b c hdrs (''mutation '' @ text) vars of
        Inl e \<Rightarrow> \<lparr>client_after = c, events = [], outcome = Threw e, this_after = this\<rparr>
      | Inr (c', req) \<Rightarrow>
          (case settle b this tr of
             (this2, evs, out) \<Rightarrow>
               \<lparr>client_after = c', events = Sent req # evs, outcome = out,
                this_after = this2\<rparr>))"

datatype registry_class = GQLQuery | GQLMutation

definition send ::
  "registry_class \<Rightarrow> import_binding \<Rightarrow> registry \<Rightarrow> client \<Rightarrow> jsobj option \<Rightarrow> string
     \<Rightarrow> jsobj option \<Rightarrow> transport_result \<Rightarrow> exec_run" where
  "send cls = (case cls of GQLQuery \<Rightarrow> GQLQuery_send | GQLMutation \<Rightarrow> GQLMutation_send)"

text \<open>\<open>array.join(sep)\<close> on strings; an entry object converts to \<open>[object Object]\<close>.\<close>

fun join :: "string \<Rightarrow> string list \<Rightarrow> string" where
  "join sep [] = []"
| "join sep [x] = x"
| "join sep (x # y # ys) = x @ sep @ join sep (y # ys)"

definition entry_to_string :: "query_entry \<Rightarrow> string" where
  "entry_to_string e = ''[object Object]''"

text \<open>
  \<open>exec(variables = {}, headers = null)\<close>, inherited by \<open>GQLMutation\<close>; \<open>this.__send\<close>
  is the method of the instance's class. After the early return for an empty \<open>queries\<close>
  the next use of \<open>_\<close> is \<open>if (!_.isEmpty(queryArgs))\<close>.
\<close>

definition exec ::
  "registry_class \<Rightarrow> import_binding \<Rightarrow> jsval option \<Rightarrow> jsval option \<Rightarrow> registry \<Rightarrow> jsobj
     \<Rightarrow> jsobj option \<Rightarrow> client \<Rightarrow> transport_result \<Rightarrow> exec_run" where
  "exec cls b gargs gname this variables hdrs c tr =
     (case getQueries b gargs gname variables (queries this) ([], [], []) of
        (evs, Inl e) \<Rightarrow> \<lparr>client_after = c, events = evs, outcome = Threw e, this_after = this\<rparr>
      | (evs, Inr (qs, queryArgs, vars)) \<Rightarrow>
          if qs = [] then
            \<lparr>client_after = c, events = evs, outcome = Fulfilled (JBool True), this_after = this\<rparr>
          else
            (case b of
               Namespace \<Rightarrow>
                 \<lparr>client_after = c, events = evs, outcome = Threw TypeError, this_after = this\<rparr>
             | Interop \<Rightarrow>
                 let joined = join '' '' (map entry_to_string qs);
                     def = map (\<lambda>(key, type). ''$'' @ key @ '': '' @ type) queryArgs;
                     wrapped = (if queryArgs \<noteq> []
                                then ''WRAPPER('' @ join '' '' def @ '') { '' @ joined @ '' }''
                                else ''{'' @ joined @ ''}'');
                     vars' = (if queryArgs \<noteq> [] then Some vars else None);
                     document = (if directives this \<noteq> []
                                 then join '' '' (directives this) @ wrapped
                                 else wrapped);
                     sent = send cls b this c hdrs document vars' tr
                 in sent\<lparr>events := evs @ events sent\<rparr>))"

subsection \<open>The single-shot runners\<close>

text \<open>
  Destructuring \<open>[errors, data]\<close> from the value a promise is fulfilled with: the
  elements of an array or the characters of a string, \<open>undefined\<close> past the end; any
  other value is not iterable.
\<close>

fun iterate :: "jsval \<Rightarrow> jserror + jsval list" where
  "iterate (JArr xs) = Inr xs"
| "iterate (JStr s) = Inr (map (\<lambda>c. JStr [c]) s)"
| "iterate v = Inl TypeError"

definition item :: "jsval list \<Rightarrow> nat \<Rightarrow> jsval" where
  "item xs i = (if i < length xs then xs ! i else JUndefined)"

text \<open>\<open>errors[query.name]\<close>: an absent \<open>name\<close> is the key \<open>undefined\<close>.\<close>

definition name_key :: "query_object \<Rightarrow> string" where
  "name_key q = (case q_name q of None \<Rightarrow> ''undefined'' | Some n \<Rightarrow> n)"

text \<open>
  The \<open>handleResponse\<close> closure of \<open>gqlQuery\<close>:
  \<open>if (errors && errors.serverError) return query.onError.call(null, errors.serverError);\<close>
  \<open>if (errors && errors[query.name]) return query.onError.call(null, errors[query.name]);\<close>
  \<open>return [errors, data];\<close>
\<close>

definition gqlQuery_handleResponse ::
  "query_object \<Rightarrow> jsval \<Rightarrow> event list \<times> (jserror + jsval)" where
  "gqlQuery_handleResponse q v =
     (case iterate v of
        Inl e \<Rightarrow> ([], Inl e)
      | Inr xs \<Rightarrow>
          let errs = item xs 0; data = item xs 1
          in if truthy errs \<and> truthy (property errs ''serverError'')
             then invoke (q_onError q) [property errs ''serverError'']
             else if truthy errs \<and> truthy (property errs (name_key q))
             then invoke (q_onError q) [property errs (name_key q)]
             else ([], Inr (JArr [errs, data])))"

text \<open>The closure of \<open>gqlMutator\<close> takes \<open>[errors]\<close> and has no final \<open>return\<close>.\<close>

definition gqlMutator_handleResponse ::
  "query_object \<Rightarrow> jsval \<Rightarrow> event list \<times> (jserror + jsval)" where
  "gqlMutator_handleResponse q v =
     (case iterate v of
        Inl e \<Rightarrow> ([], Inl e)
      | Inr xs \<Rightarrow>
          let errs = item xs 0
          in if truthy errs \<and> truthy (property errs ''serverError'')
             then invoke (q_onError q) [property errs ''serverError'']
             else if truthy errs \<and> truthy (property errs (name_key q))
             then invoke (q_onError q) [property errs (name_key q)]
             else ([], Inr JUndefined))"

text \<open>\<open>promise.then(handler)\<close> after \<open>exec\<close>.\<close>

definition then_handler ::
  "(jsval \<Rightarrow> event list \<times> (jserror + jsval)) \<Rightarrow> exec_run \<Rightarrow> run" where
  "then_handler handler x =
     (case outcome x of
        Fulfilled v \<Rightarrow>
          (case handler v of
             (evs, Inl e) \<Rightarrow>
               \<lparr>client_after = client_after x, events = events x @ evs, outcome = Rejected e\<rparr>
           | (evs, Inr v') \<Rightarrow>
               \<lparr>client_after = client_after x, events = events x @ evs, outcome = Fulfilled v'\<rparr>)
      | other \<Rightarrow> \<lparr>client_after = client_after x, events = events x, outcome = other\<rparr>)"

text \<open>
  \<open>gqlQuery(query, vars = {}, headers = false)\<close>: \<open>new GQLQuery()\<close>, \<open>gql.set(query)\<close>,
  \<open>gql.exec(vars, headers).then(handleResponse)\<close>.
\<close>

definition gqlQuery ::
  "import_binding \<Rightarrow> jsval option \<Rightarrow> jsval option \<Rightarrow> query_object \<Rightarrow> jsobj \<Rightarrow> jsobj option
     \<Rightarrow> client \<Rightarrow> transport_result \<Rightarrow> run" where
  "gqlQuery b gargs gname q vars hdrs c tr =
     (case construct GQLQuery_members of
        Inl e \<Rightarrow> \<lparr>client_after = c, events = [], outcome = Threw e\<rparr>
      | Inr gql \<Rightarrow>
          (case GQLQuery_set b gql q of
             Inl e \<Rightarrow> \<lparr>client_after = c, events = [], outcome = Threw e\<rparr>
           | Inr gql' \<Rightarrow>
               then_handler (gqlQuery_handleResponse q)
                 (exec GQLQuery b gargs gname gql' vars hdrs c tr)))"

definition gqlMutator ::
  "import_binding \<Rightarrow> jsval option \<Rightarrow> jsval option \<Rightarrow> query_object \<Rightarrow> jsobj \<Rightarrow> jsobj option
     \<Rightarrow> client \<Rightarrow> transport_result \<Rightarrow> run" where
  "gqlMutator b gargs gname q vars hdrs c tr =
     (case construct GQLMutation_members of
        Inl e \<Rightarrow> \<lparr>client_after = c, events = [], outcome = Threw e\<rparr>
      | Inr mutator \<Rightarrow>
          (case GQLQuery_set b mutator q of
             Inl e \<Rightarrow> \<lparr>client_after = c, events = [], outcome = Threw e\<rparr>
           | Inr mutator' \<Rightarrow>
               then_handler (gqlMutator_handleResponse q)
                 (exec GQLMutation b gargs gname mutator' vars hdrs c tr)))"

section \<open>The reactive state store (query-state)\<close>

text \<open>
  query-state binds \<open>_\<close> to the default export of utils, so \<open>_.extend\<close> and \<open>_.omit\<close>
  are underscore's. The fields the methods below read and write: the snapshot \<open>state\<close>
  (a plain object), the previous
  snapshot \<open>oldState\<close>, and the subscriber list, a list of functions as the constructor
  documents it (it stores the list it is given as it is).
\<close>

record store =
  state :: jsobj
  oldState :: jsobj
  subscribers :: "func list"

text \<open>\<open>_.omit(object, key)\<close>: a copy without that key.\<close>

definition omit :: "jsobj \<Rightarrow> string \<Rightarrow> jsobj" where
  "omit ps k = filter (\<lambda>p. fst p \<noteq> k) ps"

text \<open>
  \<open>unset(name)\<close>: \<open>if (!this.state[name]) return;\<close> then
  \<open>this.oldState = _.extend({}, this.state); this.state = _.omit(this.state, name);\<close>.
  No path returns a value: the call evaluates to \<open>undefined\<close>.
\<close>

definition GQLQueryState_unset :: "store \<Rightarrow> string \<Rightarrow> store \<times> jsval" where
  "GQLQueryState_unset s n =
     (if truthy (obj_get (state s) n)
      then (s\<lparr>oldState := state s, state := omit (state s) n\<rparr>, JUndefined)
      else (s, JUndefined))"

text \<open>
  \<open>__callSubscribers(oldState)\<close>: nothing without subscribers; else every subscriber is
  called with a copy of the state and \<open>oldState\<close> (and the store, not recorded).
\<close>

definition callSubscribers :: "store \<Rightarrow> jsobj \<Rightarrow> event list" where
  "callSubscribers s old =
     (if subscribers s = [] then []
      else map (\<lambda>cb. Invoked (JFun cb) [JObj (state s), JObj old]) (subscribers s))"

text \<open>\<open>unsetSync(name)\<close>: \<open>if (!this.unset(name)) return;\<close> then
  \<open>this.__callSubscribers(this.oldState)\<close>.\<close>

definition GQLQueryState_unsetSync :: "store \<Rightarrow> string \<Rightarrow> store \<times> event list" where
  "GQLQueryState_unsetSync s n =
     (case GQLQueryState_unset s n of
        (s', returned) \<Rightarrow>
          if truthy returned then (s', callSubscribers s' (oldState s')) else (s', []))"

text \<open>
  \<open>subscribe(callback)\<close>: \<open>false\<close> unless the callback is a function with a non-empty
  \<open>name\<close>; a bare \<open>return\<close> when a subscriber of that name exists; else the callback
  is pushed and the result is \<open>true\<close>.
\<close>

definition GQLQueryState_subscribe :: "store \<Rightarrow> jsval \<Rightarrow> store \<times> jsval" where
  "GQLQueryState_subscribe s callback =
     (case callback of
        JFun f \<Rightarrow>
          if fname f = [] then (s, JBool False)
          else if filter (\<lambda>cb. fname cb = fname f) (subscribers s) \<noteq> [] then (s, JUndefined)
          else (s\<lparr>subscribers := subscribers s @ [f]\<rparr>, JBool True)
      | _ \<Rightarrow> (s, JBool False))"

text \<open>\<open>unsubscribe(callback)\<close>: the same guard, then the list is filtered by name.\<close>

definition GQLQueryState_unsubscribe :: "store \<Rightarrow> jsval \<Rightarrow> store \<times> jsval" where
  "GQLQueryState_unsubscribe s callback =
     (case callback of
        JFun f \<Rightarrow>
          if fname f = [] then (s, JBool False)
          else (s\<lparr>subscribers := filter (\<lambda>cb. fname cb \<noteq> fname f) (subscribers s)\<rparr>,
                JBool True)
      | _ \<Rightarrow> (s, JBool False))"


section \<open>Notions the properties are stated with\<close>

text \<open>The registered entries of a registry, in position order, and their names.\<close>

fun entries :: "query_entry option list \<Rightarrow> query_entry list" where
  "entries [] = []"
| "entries (None # xs) = entries xs"
| "entries (Some e # xs) = e # entries xs"

definition entry_names :: "query_entry option list \<Rightarrow> string list" where
  "entry_names xs = map name (entries xs)"

definition unique_names :: "registry \<Rightarrow> bool" where
  "unique_names r = distinct (entry_names (queries r))"

text \<open>The object literal a successful \<open>set\<close> stores for a name and a query text.\<close>

definition stored_entry :: "query_object \<Rightarrow> string \<Rightarrow> string \<Rightarrow> query_entry" where
  "stored_entry q n t =
     \<lparr>name = n, query = t, args = (if q_args q = JUndefined then JObj [] else q_args q)\<rparr>"

text \<open>A sequence of \<open>set\<close> calls on a fresh registry; a call that throws leaves the
  registry as it was.\<close>

definition set_or_throw :: "import_binding \<Rightarrow> registry \<Rightarrow> query_object \<Rightarrow> registry" where
  "set_or_throw b r q = (case GQLQuery_set b r q of Inl e \<Rightarrow> r | Inr r' \<Rightarrow> r')"

definition set_calls :: "import_binding \<Rightarrow> query_object list \<Rightarrow> registry" where
  "set_calls b qs = foldl (set_or_throw b) reset qs"

text \<open>The number of subscribers of a store under one function name.\<close>

definition subscribed :: "store \<Rightarrow> string \<Rightarrow> nat" where
  "subscribed s n = length (filter (\<lambda>cb. fname cb = n) (subscribers s))"

subsection \<open>Example data\<close>

text \<open>The entry \<open>{name: "getUser", query: "getUser(id:$id){name}",
  args: {id: {type: "Int", value: 1}}}\<close> and the object that registers it.\<close>

definition getUser_args :: jsval where
  "getUser_args = JObj [(''id'', JObj [(''type'', JStr ''Int''), (''value'', JNum 1)])]"

definition getUser_object :: "jsval \<Rightarrow> query_object" where
  "getUser_object onError =
     \<lparr>q_nameOrAlias = Some ''getUser'', q_name = None, q_args = getUser_args,
      q_query = Some ''getUser(id:$id){name}'', q_onSuccess = JUndefined, q_onError = onError\<rparr>"

definition getUser_entry :: query_entry where
  "getUser_entry = \<lparr>name = ''getUser'', query = ''getUser(id:$id){name}'', args = getUser_args\<rparr>"

definition getUser_registry :: registry where
  "getUser_registry = reset\<lparr>queries := [Some getUser_entry]\<rparr>"

definition listUsers_entry :: query_entry where
  "listUsers_entry = \<lparr>name = ''listUsers'', query = ''listUsers{name}'', args = JObj []\<rparr>"

definition configured :: client where
  "configured = \<lparr>url = Some ''/graphql'', headers = Some [(''Accept'', JStr ''json'')]\<rparr>"

definition two_errors :: jsval where
  "two_errors = JObj [(''data'', JObj [(''errors'',
     JArr [JObj [(''message'', JStr ''boom'')], JObj [(''message'', JStr ''final'')]])])]"

section \<open>Properties\<close>

subsection \<open>Index lookup\<close>

lemma findIndex_from_none:
  "(findIndex_from i xs n < 0) = (filter (\<lambda>x. isMatch x n) xs = [])"
  by (induction xs arbitrary: i) auto

lemma findIndex_from_shift:
  "0 \<le> findIndex_from i xs n \<Longrightarrow> findIndex_from i xs n = int i + findIndex_from 0 xs n"
proof (induction xs arbitrary: i)
  case Nil
  then show ?case by simp
next
  case (Cons x xs)
  show ?case
  proof (cases "isMatch x n")
    case True
    then show ?thesis by simp
  next
    case False
    with Cons.prems have p: "0 \<le> findIndex_from (Suc i) xs n" by simp
    then have p1: "0 \<le> findIndex_from (Suc 0) xs n"
      using findIndex_from_none[of "Suc i" xs n] findIndex_from_none[of "Suc 0" xs n]
      by linarith
    from Cons.IH[OF p] Cons.IH[OF p1] False show ?thesis by simp
  qed
qed

lemma findIndex_none: "(findIndex xs n < 0) = (filter (\<lambda>x. isMatch x n) xs = [])"
  by (simp add: findIndex_def findIndex_from_none)

lemma findIndex_found:
  assumes "0 \<le> findIndex xs n"
  shows "nat (findIndex xs n) < length xs \<and> isMatch (xs ! nat (findIndex xs n)) n
         \<and> (\<forall>k < nat (findIndex xs n). \<not> isMatch (xs ! k) n)"
  using assms unfolding findIndex_def
proof (induction xs)
  case Nil
  then show ?case by simp
next
  case (Cons x xs)
  show ?case
  proof (cases "isMatch x n")
    case True
    then show ?thesis by simp
  next
    case False
    with Cons.prems have p: "0 \<le> findIndex_from (Suc 0) xs n" by simp
    then have p0: "0 \<le> findIndex_from 0 xs n"
      using findIndex_from_none[of "Suc 0" xs n] findIndex_from_none[of 0 xs n] by linarith
    have eq: "findIndex_from (Suc 0) xs n = 1 + findIndex_from 0 xs n"
      using findIndex_from_shift[OF p] by simp
    have n: "nat (1 + findIndex_from 0 xs n) = Suc (nat (findIndex_from 0 xs n))"
      using p0 by simp
    from Cons.IH[OF p0] False show ?thesis
      by (auto simp: eq n less_Suc_eq_0_disj)
  qed
qed

lemma findIndex_first:
  assumes "i < length xs" "isMatch (xs ! i) n" "\<forall>k<i. \<not> isMatch (xs ! k) n"
  shows "findIndex xs n = int i"
proof -
  have "filter (\<lambda>x. isMatch x n) xs \<noteq> []"
    using assms(1,2) by (auto simp: filter_empty_conv)
  then have nn: "0 \<le> findIndex xs n"
    using findIndex_none[of xs n] by simp
  from findIndex_found[OF nn] have b: "isMatch (xs ! nat (findIndex xs n)) n"
    and c: "\<forall>k < nat (findIndex xs n). \<not> isMatch (xs ! k) n" by auto
  have "nat (findIndex xs n) = i"
  proof (rule ccontr)
    assume "nat (findIndex xs n) \<noteq> i"
    then consider "nat (findIndex xs n) < i" | "i < nat (findIndex xs n)" by linarith
    then show False
    proof cases
      case 1
      with assms(3) b show False by blast
    next
      case 2
      with c assms(2) show False by blast
    qed
  qed
  with nn show ?thesis by simp
qed

subsection \<open>Names of the registered entries\<close>

lemma entry_names_append: "entry_names (xs @ ys) = entry_names xs @ entry_names ys"
  unfolding entry_names_def by (induction xs rule: entries.induct) auto

lemma set_entry_names: "(n \<in> set (entry_names xs)) = (filter (\<lambda>x. isMatch x n) xs \<noteq> [])"
  unfolding entry_names_def by (induction xs rule: entries.induct) auto

lemma entry_names_update:
  "i < length xs \<Longrightarrow> isMatch (xs ! i) (name e)
     \<Longrightarrow> entry_names (xs[i := Some e]) = entry_names xs"
  unfolding entry_names_def
proof (induction xs arbitrary: i rule: entries.induct)
  case 1
  then show ?case by simp
next
  case (2 xs)
  then show ?case by (cases i) auto
next
  case (3 e' xs)
  then show ?case by (cases i) auto
qed

lemma count_names: "length (filter (\<lambda>x. isMatch x n) xs) = count_list (entry_names xs) n"
  unfolding entry_names_def by (induction xs rule: entries.induct) auto

lemma distinct_count_le: "distinct ys \<Longrightarrow> count_list ys y \<le> 1"
  by (induction ys) auto

lemma match_in_names: "i < length xs \<Longrightarrow> isMatch (xs ! i) n \<Longrightarrow> n \<in> set (entry_names xs)"
  by (auto simp: set_entry_names filter_empty_conv)

lemma distinct_names_no_earlier:
  "distinct (entry_names xs) \<Longrightarrow> i < length xs \<Longrightarrow> isMatch (xs ! i) n \<Longrightarrow> k < i
     \<Longrightarrow> \<not> isMatch (xs ! k) n"
proof (induction xs arbitrary: i k)
  case Nil
  then show ?case by simp
next
  case (Cons x xs)
  from Cons.prems(4) obtain j where i: "i = Suc j" by (cases i) auto
  with Cons.prems have j: "j < length xs" "isMatch (xs ! j) n" by auto
  then have mem: "n \<in> set (entry_names xs)" by (rule match_in_names)
  have d: "distinct (entry_names xs)"
    using Cons.prems(1) by (cases x) (auto simp: entry_names_def)
  show ?case
  proof (cases k)
    case 0
    show ?thesis
    proof
      assume "isMatch ((x # xs) ! k) n"
      with 0 obtain e where "x = Some e" "name e = n" by (cases x) auto
      with Cons.prems(1) mem show False by (simp add: entry_names_def)
    qed
  next
    case (Suc k')
    with Cons.prems(4) i have "k' < j" by simp
    from Cons.IH[OF d j this] Suc show ?thesis by simp
  qed
qed

lemma unique_first:
  assumes "unique_names r" "i < length (queries r)" "isMatch (queries r ! i) n"
  shows "findIndex (queries r) n = int i"
  using assms distinct_names_no_earlier[of "queries r" i n]
  by (intro findIndex_first) (auto simp: unique_names_def)

subsection \<open>Registering\<close>

text \<open>With \<open>_\<close> the module namespace, \<open>get\<close>, \<open>set\<close> and \<open>unset\<close> throw on every
  call, and a sequence of \<open>set\<close> calls registers nothing.\<close>

lemma registry_methods_namespace:
  "GQLQuery_get Namespace r n = Inl TypeError"
  "GQLQuery_set Namespace r q = Inl TypeError"
  "GQLQuery_unset Namespace r n = Inl TypeError"
  by (simp_all add: GQLQuery_get_def GQLQuery_set_def GQLQuery_unset_def)

lemma set_calls_namespace: "set_calls Namespace qs = reset"
proof -
  have "foldl (set_or_throw Namespace) r qs = r" for r
    by (induction qs arbitrary: r) (simp_all add: set_or_throw_def GQLQuery_set_def)
  then show ?thesis by (simp add: set_calls_def)
qed

lemma GQLQuery_set_queries:
  assumes "q_nameOrAlias q = Some n" "n \<noteq> []" "q_query q = Some t" "t \<noteq> []"
  shows "\<exists>r'. GQLQuery_set Interop r q = Inr r' \<and>
           queries r' =
             (if findIndex (queries r) n < 0 then queries r @ [Some (stored_entry q n t)]
              else (queries r)[nat (findIndex (queries r) n) := Some (stored_entry q n t)])"
  using assms by (simp add: GQLQuery_set_def stored_entry_def Let_def)

lemma GQLQuery_set_throws:
  "(\<exists>e. GQLQuery_set Interop r q = Inl e) =
     (q_nameOrAlias q = None \<or> q_nameOrAlias q = Some [] \<or> q_query q = None
      \<or> q_query q = Some [])"
  by (auto simp: GQLQuery_set_def Let_def split: option.splits)

lemma GQLQuery_set_unique:
  assumes "GQLQuery_set b r q = Inr r'" "unique_names r"
  shows "unique_names r'"
proof -
  from assms(1) have b: "b = Interop"
    by (cases b) (simp_all add: GQLQuery_set_def)
  from assms(1) b obtain n t
    where q: "q_nameOrAlias q = Some n" "n \<noteq> []" "q_query q = Some t" "t \<noteq> []"
    by (auto simp: GQLQuery_set_def Let_def split: option.splits if_splits)
  from GQLQuery_set_queries[OF q, of r] assms(1) b
  have qs: "queries r' =
      (if findIndex (queries r) n < 0 then queries r @ [Some (stored_entry q n t)]
       else (queries r)[nat (findIndex (queries r) n) := Some (stored_entry q n t)])"
    by auto
  show ?thesis
  proof (cases "findIndex (queries r) n < 0")
    case True
    then have "n \<notin> set (entry_names (queries r))"
      by (simp add: set_entry_names findIndex_none)
    moreover have "entry_names [Some (stored_entry q n t)] = [n]"
      by (simp add: entry_names_def stored_entry_def)
    ultimately show ?thesis
      using True qs assms(2) by (simp add: unique_names_def entry_names_append)
  next
    case False
    then have nn: "0 \<le> findIndex (queries r) n" by simp
    from findIndex_found[OF nn]
    have "entry_names ((queries r)[nat (findIndex (queries r) n) := Some (stored_entry q n t)])
            = entry_names (queries r)"
      by (intro entry_names_update) (auto simp: stored_entry_def)
    with False qs assms(2) show ?thesis by (simp add: unique_names_def)
  qed
qed

lemma set_or_throw_unique: "unique_names r \<Longrightarrow> unique_names (set_or_throw b r q)"
  by (auto simp: set_or_throw_def dest: GQLQuery_set_unique split: sum.splits)

lemma foldl_set_unique: "unique_names r \<Longrightarrow> unique_names (foldl (set_or_throw b) r qs)"
  by (induction qs arbitrary: r) (auto simp: set_or_throw_unique)

lemma set_calls_unique: "unique_names (set_calls b qs)"
  unfolding set_calls_def
  by (rule foldl_set_unique) (simp add: unique_names_def reset_def entry_names_def)

lemma first_entry_never_found:
  assumes "queries r = Some e # xs"
  shows "GQLQuery_get Interop r (name e) = Inr Null
         \<and> GQLQuery_unset Interop r (name e) = Inr r"
  using assms by (simp add: GQLQuery_get_def GQLQuery_unset_def findIndex_def)

text \<open>\<open>unset\<close> keeps the names unique as well, so every registry built by \<open>set\<close>
  and \<open>unset\<close> calls has unique names.\<close>

lemma entry_names_hole_subset: "set (entry_names (xs[i := None])) \<subseteq> set (entry_names xs)"
  unfolding entry_names_def
proof (induction xs arbitrary: i rule: entries.induct)
  case 1
  then show ?case by simp
next
  case (2 xs)
  then show ?case by (cases i) auto
next
  case (3 e xs)
  then show ?case by (cases i) auto
qed

lemma entry_names_hole_distinct:
  "distinct (entry_names xs) \<Longrightarrow> distinct (entry_names (xs[i := None]))"
proof (induction xs arbitrary: i rule: entries.induct)
  case 1
  then show ?case by simp
next
  case (2 xs)
  then show ?case by (cases i) (auto simp: entry_names_def)
next
  case (3 e xs)
  show ?case
  proof (cases i)
    case 0
    with 3 show ?thesis by (simp add: entry_names_def)
  next
    case (Suc j)
    from 3 have d: "distinct (entry_names xs)" "name e \<notin> set (entry_names xs)"
      by (auto simp: entry_names_def)
    have "name e \<notin> set (entry_names (xs[j := None]))"
      using d(2) entry_names_hole_subset[of xs j] by blast
    with 3(1)[OF d(1), of j] Suc show ?thesis by (simp add: entry_names_def)
  qed
qed

lemma GQLQuery_unset_unique:
  "GQLQuery_unset b r n = Inr r' \<Longrightarrow> unique_names r \<Longrightarrow> unique_names r'"
  by (cases b)
     (auto simp: GQLQuery_unset_def unique_names_def delete_element_def Let_def
        entry_names_hole_distinct split: if_splits)

text \<open>
  What \<open>set\<close> does where an interop binds \<open>_\<close> to underscore: a call with a non-empty
  name \<open>n\<close> and a non-empty query text succeeds; the entry at the first position of the
  name is replaced and the length of the list is unchanged (in a registry with unique
  names that is any position holding the name, position 0 included); a new name is
  appended; unique names are preserved, so that after any sequence of \<open>set\<close> calls at
  most one entry carries any given name.
\<close>

lemma set_interop_replaces_or_appends:
  assumes "q_nameOrAlias q = Some n" and "n \<noteq> []" and "q_query q = Some t" and "t \<noteq> []"
  shows "\<exists>r'. GQLQuery_set Interop r q = Inr r'
    \<and> (\<forall>i. i < length (queries r) \<and> isMatch (queries r ! i) n
             \<and> (\<forall>k<i. \<not> isMatch (queries r ! k) n)
          \<longrightarrow> queries r' = (queries r)[i := Some (stored_entry q n t)]
              \<and> length (queries r') = length (queries r))
    \<and> (\<forall>i. unique_names r \<and> i < length (queries r) \<and> isMatch (queries r ! i) n
          \<longrightarrow> queries r' = (queries r)[i := Some (stored_entry q n t)]
              \<and> length (queries r') = length (queries r))
    \<and> (filter (\<lambda>x. isMatch x n) (queries r) = []
          \<longrightarrow> queries r' = queries r @ [Some (stored_entry q n t)])
    \<and> (unique_names r \<longrightarrow> unique_names r')
    \<and> (\<forall>qs m. length (filter (\<lambda>x. isMatch x m) (queries (set_calls Interop qs))) \<le> 1)"
proof -
  from GQLQuery_set_queries[OF assms, of r] obtain r'
    where r': "GQLQuery_set Interop r q = Inr r'"
      and qs: "queries r' =
        (if findIndex (queries r) n < 0 then queries r @ [Some (stored_entry q n t)]
         else (queries r)[nat (findIndex (queries r) n) := Some (stored_entry q n t)])"
    by blast
  have first: "queries r' = (queries r)[i := Some (stored_entry q n t)]
               \<and> length (queries r') = length (queries r)"
    if "i < length (queries r)" "isMatch (queries r ! i) n"
      "\<forall>k<i. \<not> isMatch (queries r ! k) n" for i
    using findIndex_first[OF that] qs by simp
  have uniq: "queries r' = (queries r)[i := Some (stored_entry q n t)]
               \<and> length (queries r') = length (queries r)"
    if "unique_names r" "i < length (queries r)" "isMatch (queries r ! i) n" for i
    using unique_first[OF that] qs by simp
  have app: "queries r' = queries r @ [Some (stored_entry q n t)]"
    if "filter (\<lambda>x. isMatch x n) (queries r) = []"
    using that qs by (simp add: findIndex_none)
  have inv: "unique_names r'" if "unique_names r"
    using GQLQuery_set_unique[OF r' that] .
  have seq: "length (filter (\<lambda>x. isMatch x m) (queries (set_calls Interop qs))) \<le> 1"
    for qs m
  proof -
    have "distinct (entry_names (queries (set_calls Interop qs)))"
      using set_calls_unique[of Interop qs] by (simp add: unique_names_def)
    from distinct_count_le[OF this, of m] show ?thesis by (simp add: count_names)
  qed
  from r' first uniq app inv seq show ?thesis by blast
qed

subsection \<open>Executing\<close>

lemma getQueries_no_entries:
  "entries xs = [] \<Longrightarrow> getQueries b gargs gname variables xs acc = ([], Inr acc)"
  by (induction xs rule: entries.induct) auto

lemma getQueries_unbound:
  "entries xs \<noteq> []
     \<Longrightarrow> getQueries b None gname variables xs acc = ([], Inl (ReferenceError ''args''))"
  by (induction xs rule: entries.induct) (auto simp: GQLQuery_getQuery_def split: prod.splits)

text \<open>Where the global object defines no \<open>args\<close>, \<open>exec\<close> on a registry that holds an
  entry throws before anything is composed or sent, whatever \<open>_\<close> is bound to.\<close>

lemma exec_unbound_args:
  "entries (queries r) \<noteq> [] \<Longrightarrow> exec cls b None gname r variables hdrs c tr =
     \<lparr>client_after = c, events = [], outcome = Threw (ReferenceError ''args''), this_after = r\<rparr>"
  by (simp add: exec_def getQueries_unbound)

text \<open>With \<open>_\<close> the module namespace, \<open>exec\<close> never reaches the client: it sends
  nothing, calls nothing and leaves the registry and the configuration as they are.\<close>

lemma getQueries_namespace_events:
  "fst (getQueries Namespace gargs gname variables xs acc) = []"
proof (induction xs arbitrary: acc rule: entries.induct)
  case 1
  then show ?case by simp
next
  case (2 xs)
  then show ?case by simp
next
  case (3 e xs)
  obtain qs queryArgs vars where acc: "acc = (qs, queryArgs, vars)" by (cases acc) auto
  show ?case
  proof (cases "\<exists>a. gargs = Some a \<and> \<not> truthy a")
    case True
    then have "GQLQuery_getQuery Namespace gargs gname e acc variables
                 = ([], Inr (qs @ [e], queryArgs, vars))"
      by (auto simp: GQLQuery_getQuery_def acc)
    with 3[of "(qs @ [e], queryArgs, vars)"] show ?thesis
      by (simp split: prod.splits)
  next
    case False
    then have "\<exists>err. GQLQuery_getQuery Namespace gargs gname e acc variables = ([], Inl err)"
      by (cases gargs) (auto simp: GQLQuery_getQuery_def acc)
    then show ?thesis by auto
  qed
qed

lemma exec_namespace_sends_nothing:
  "events (exec cls Namespace gargs gname r variables hdrs c tr) = []
   \<and> client_after (exec cls Namespace gargs gname r variables hdrs c tr) = c
   \<and> this_after (exec cls Namespace gargs gname r variables hdrs c tr) = r"
  using getQueries_namespace_events[of gargs gname variables "queries r" "([], [], [])"]
  by (auto simp: exec_def split: prod.splits sum.splits)

text \<open>Whatever \<open>_\<close> and the global object bind, the only document the registry of
  the \<open>getUser\<close> entry can send is the entry object's string conversion, without
  variables.\<close>

lemma getUser_never_composed:
  assumes "Sent (Request m u t v h)
             \<in> set (events (exec GQLQuery b gargs gname getUser_registry vars hdrs c tr))"
  shows "t = ''query {[object Object]}'' \<and> v = None"
proof (cases b)
  case Namespace
  with assms show ?thesis by (simp add: exec_namespace_sends_nothing)
next
  case Interop
  with assms show ?thesis
    by (auto simp: exec_def getUser_registry_def reset_def GQLQuery_getQuery_def
        getQuery_first_round_def send_def GQLQuery_send_def GQLClientQuery_def settle_def
        GQLQuery_handleResponse_def GQLQuery_handleErrorResponse_def entry_to_string_def Let_def
        split: option.splits if_splits list.splits prod.splits sum.splits
          transport_result.splits)
qed

text \<open>The promise chain of \<open>__send\<close> rejects however the transport settles.\<close>

lemma settle_rejects: "settle b this tr = (this, [], Rejected TypeError)"
  by (cases tr)
     (simp_all add: settle_def GQLQuery_handleResponse_def GQLQuery_handleErrorResponse_def)

lemma construct_throws:
  "construct GQLQuery_members = Inl TypeError" "construct GQLMutation_members = Inl TypeError"
  by (simp_all add: construct_def GQLQuery_members_def GQLMutation_members_def)

text \<open>The client never hands the transport the merged headers: with \<open>_\<close> the module
  namespace it makes no request at all, and with underscore it passes on the headers of
  the call alone and writes them into the configured headers.\<close>

lemma client_namespace:
  "GQLClientQuery Namespace c hdrs text vars \<noteq> Inr (c', req)"
  "GQLClientMutation Namespace c hdrs text vars \<noteq> Inr (c', req)"
  by (auto simp: GQLClientQuery_def GQLClientMutation_def split: option.splits)

lemma client_interop_headers:
  assumes "GQLClientQuery Interop c (Some h) text vars = Inr (c', Request m u t v h')
           \<or> GQLClientMutation Interop c (Some h) text vars = Inr (c', Request m u t v h')"
  shows "h' = h
         \<and> headers c' = map_option (\<lambda>configured. underscore_extend configured h) (headers c)"
  using assms
  by (auto simp: GQLClientQuery_def GQLClientMutation_def Let_def
      split: option.splits if_splits)

text \<open>So every request an \<open>exec\<close> sends carries the headers of the call alone.\<close>

lemma getQuery_no_sent:
  "Sent x \<notin> set (fst (GQLQuery_getQuery b gargs gname e acc variables))"
  by (auto simp: GQLQuery_getQuery_def getQuery_first_round_def
      split: prod.splits option.splits import_binding.splits list.splits if_splits)

lemma getQueries_no_sent:
  "Sent x \<notin> set (fst (getQueries b gargs gname variables xs acc))"
proof (induction xs arbitrary: acc rule: entries.induct)
  case 1
  then show ?case by simp
next
  case (2 xs)
  then show ?case by simp
next
  case (3 e xs)
  obtain evs res where g: "GQLQuery_getQuery b gargs gname e acc variables = (evs, res)"
    by (cases "GQLQuery_getQuery b gargs gname e acc variables") auto
  have a: "Sent x \<notin> set evs"
    using getQuery_no_sent[of x b gargs gname e acc variables] g by simp
  show ?case
  proof (cases res)
    case (Inl err)
    with g a show ?thesis by simp
  next
    case (Inr acc')
    obtain evs' res' where g': "getQueries b gargs gname variables xs acc' = (evs', res')"
      by (cases "getQueries b gargs gname variables xs acc'") auto
    have "Sent x \<notin> set evs'" using 3[of acc'] g' by simp
    with g g' a Inr show ?thesis by simp
  qed
qed

lemma send_call_headers:
  assumes "Sent (Request m u t v h) \<in> set (events (send cls b this c hdrs text vars tr))"
  shows "b = Interop \<and> h = (case hdrs of None \<Rightarrow> [] | Some x \<Rightarrow> x)"
  using assms
  by (cases cls; cases b)
     (auto simp: send_def GQLQuery_send_def GQLMutation_send_def GQLClientQuery_def
        GQLClientMutation_def settle_rejects Let_def split: option.splits if_splits)

lemma exec_sends_call_headers:
  assumes "Sent (Request m u t v h)
             \<in> set (events (exec cls b gargs gname r variables hdrs c tr))"
  shows "b = Interop \<and> h = (case hdrs of None \<Rightarrow> [] | Some x \<Rightarrow> x)"
proof (cases b)
  case Namespace
  with assms show ?thesis by (simp add: exec_namespace_sends_nothing)
next
  case Interop
  obtain evs res
    where g: "getQueries Interop gargs gname variables (queries r) ([], [], []) = (evs, res)"
    by (cases "getQueries Interop gargs gname variables (queries r) ([], [], [])") auto
  have ns: "Sent (Request m u t v h) \<notin> set evs"
    using getQueries_no_sent[of "Request m u t v h" Interop gargs gname variables
        "queries r" "([], [], [])"] g
    by simp
  from assms Interop g ns show ?thesis
    by (auto simp: exec_def Let_def split: sum.splits prod.splits if_splits
        dest: send_call_headers)
qed

text \<open>Called on an instance, and with \<open>_\<close> bound to underscore, \<open>__handleResponse\<close>
  reports a non-empty \<open>errors\<close> list of the response body through its last element.\<close>

lemma handleResponse_errors_list:
  assumes "xs \<noteq> []" "\<not> nullish (last xs)"
  shows "GQLQuery_handleResponse Interop (Some r)
           (JObj [(''data'', JObj [(''errors'', JArr xs)])]) =
     ([], Inr (r\<lparr>errors := obj_set (errors r) ''serverError''
                   (JObj [(''message'', property (last xs) ''message''),
                          (''code'', JStr ''serverError'')])\<rparr>,
               JArr [JObj (obj_set (errors r) ''serverError''
                   (JObj [(''message'', property (last xs) ''message''),
                          (''code'', JStr ''serverError'')]))]))"
  using assms
  by (simp add: GQLQuery_handleResponse_def GQLQuery_serverError_def default_object_def Let_def
      inherited_def)

text \<open>The closure of \<open>gqlQuery\<close> hands a truthy \<open>serverError\<close> to \<open>onError\<close>.\<close>

lemma gqlQuery_handleResponse_serverError:
  assumes "truthy e"
  shows "gqlQuery_handleResponse q (JArr (JObj [(''serverError'', e)] # rest)) =
           invoke (q_onError q) [e]"
  using assms by (simp add: gqlQuery_handleResponse_def item_def)

subsection \<open>The store\<close>

lemma unsetSync_never_notifies: "snd (GQLQueryState_unsetSync s n) = []"
  by (simp add: GQLQueryState_unsetSync_def GQLQueryState_unset_def)

text \<open>A key the snapshot does not own but inherits counts as present: \<open>unset\<close>
  overwrites \<open>oldState\<close> and removes nothing.\<close>

lemma unset_inherited_key:
  "GQLQueryState_unset \<lparr>state = [(''a'', JNum 1)], oldState = [], subscribers = []\<rparr>
     ''constructor''
   = (\<lparr>state = [(''a'', JNum 1)], oldState = [(''a'', JNum 1)], subscribers = []\<rparr>, JUndefined)"
  by (simp add: GQLQueryState_unset_def omit_def inherited_def)

lemma subscribed_append:
  "subscribed (s\<lparr>subscribers := subscribers s @ [f]\<rparr>) n
     = subscribed s n + (if fname f = n then 1 else 0)"
  by (simp add: subscribed_def)

lemma subscribe_named:
  assumes "fname f \<noteq> []"
  shows "GQLQueryState_subscribe s (JFun f) =
           (if subscribed s (fname f) = 0
            then (s\<lparr>subscribers := subscribers s @ [f]\<rparr>, JBool True)
            else (s, JUndefined))"
  using assms by (simp add: GQLQueryState_subscribe_def subscribed_def)

lemma subscribe_invalid:
  assumes "\<forall>f. v = JFun f \<longrightarrow> fname f = []"
  shows "GQLQueryState_subscribe s v = (s, JBool False)"
  using assms by (cases v) (auto simp: GQLQueryState_subscribe_def)

section \<open>The claims\<close>

text \<open>
  C1. An entry stored at position 0 should be found by \<open>get\<close> and removed by \<open>unset\<close>
  like any other. The code does neither. Where \<open>_\<close> is underscore, registering
  \<open>getUser\<close> on a fresh registry puts it at position 0, where \<open>get\<close> answers \<open>null\<close>
  and \<open>unset\<close> leaves the registry as it is, because both test \<open>!pos\<close> and \<open>!0\<close> is
  true; an entry at position 1 is found and removed (\<open>set\<close> tests \<open>pos < 0\<close> and has
  no such defect). Where \<open>_\<close> is the module namespace, \<open>get\<close> and \<open>unset\<close> throw, so
  the entry is neither returned nor removed either.
\<close>

theorem first_entry_lookup:
  "GQLQuery_set Interop reset (getUser_object JUndefined) = Inr getUser_registry
   \<and> GQLQuery_get Interop getUser_registry ''getUser'' = Inr Null
   \<and> GQLQuery_unset Interop getUser_registry ''getUser'' = Inr getUser_registry
   \<and> GQLQuery_get Interop
        (getUser_registry\<lparr>queries := [Some getUser_entry, Some listUsers_entry]\<rparr>)
        ''listUsers'' = Inr (Object listUsers_entry)
   \<and> GQLQuery_unset Interop
        (getUser_registry\<lparr>queries := [Some getUser_entry, Some listUsers_entry]\<rparr>)
        ''listUsers'' = Inr (getUser_registry\<lparr>queries := [Some getUser_entry, None]\<rparr>)
   \<and> GQLQuery_get Namespace getUser_registry ''getUser'' = Inl TypeError
   \<and> GQLQuery_unset Namespace getUser_registry ''getUser'' = Inl TypeError"
  by (simp add: GQLQuery_set_def GQLQuery_get_def GQLQuery_unset_def findIndex_def reset_def
      getUser_object_def getUser_registry_def getUser_entry_def listUsers_entry_def
      getUser_args_def element_def delete_element_def)

text \<open>
  C2. \<open>unsetSync\<close> should remove a field that is present and then notify the
  subscribers. The code never notifies: \<open>unset\<close> has no return value, so
  \<open>!this.unset(name)\<close> is always true and \<open>unsetSync\<close> returns before
  \<open>__callSubscribers\<close>. On the snapshot \<open>{a: 1, b: 2}\<close> with one subscriber the field
  \<open>a\<close> is removed and nobody is called. A field that is present with a falsy value is
  not removed either, because \<open>unset\<close> tests \<open>!this.state[name]\<close>: the snapshot
  \<open>{a: 0}\<close> is left as it is.
\<close>

theorem unsetSync_example:
  "GQLQueryState_unsetSync
     \<lparr>state = [(''a'', JNum 1), (''b'', JNum 2)], oldState = [],
      subscribers = [Fn ''listener'' 0]\<rparr> ''a''
    = (\<lparr>state = [(''b'', JNum 2)], oldState = [(''a'', JNum 1), (''b'', JNum 2)],
        subscribers = [Fn ''listener'' 0]\<rparr>, [])
   \<and> GQLQueryState_unsetSync
     \<lparr>state = [(''a'', JNum 0)], oldState = [], subscribers = [Fn ''listener'' 0]\<rparr> ''a''
    = (\<lparr>state = [(''a'', JNum 0)], oldState = [], subscribers = [Fn ''listener'' 0]\<rparr>, [])"
  by (simp add: GQLQueryState_unsetSync_def GQLQueryState_unset_def omit_def)

text \<open>
  C3. With the single entry \<open>getUser\<close> registered, \<open>exec({id: "7"})\<close> should compose
  a document that declares \<open>$getUser_id: Int\<close> and send the variables
  \<open>{getUser_id: 7}\<close>. The code composes nothing: \<open>__getQuery\<close> reads the undeclared
  identifier \<open>args\<close>, so where the global object does not define it \<open>exec\<close> throws a
  ReferenceError and no request is sent, whatever \<open>_\<close> is bound to.
\<close>

theorem exec_getUser:
  "exec GQLQuery b None gname getUser_registry [(''id'', JStr ''7'')] hdrs c tr =
     \<lparr>client_after = c, events = [], outcome = Threw (ReferenceError ''args''),
      this_after = getUser_registry\<rparr>"
  by (rule exec_unbound_args) (simp add: getUser_registry_def)

text \<open>
  C4. An \<open>exec\<close> of a registry that holds an entry should issue one transport call, and
  that call should receive the configured headers merged with the headers of the call.
  With \<open>{Accept: "json"}\<close> configured and the \<open>getUser\<close> entry registered,
  \<open>exec({}, {Authorization: "token"})\<close> issues no transport call at all: it throws the
  ReferenceError of C3, for either class and whatever \<open>_\<close> is bound to (first part).
  The client functions that \<open>__send\<close> would call cannot deliver the merge either. Where
  \<open>_\<close> is the module namespace they throw at \<open>_.extend\<close> before the request is made
  (second and third part). Where \<open>_\<close> is underscore they hand the transport only the
  headers of the call and write them into the configured headers, where a header of the
  call overwrites the configured one for every later call (fourth and fifth part).
  In general no request of an \<open>exec\<close> carries anything but the headers of the call.
\<close>

theorem exec_headers_example:
  "exec cls b None gname getUser_registry [] (Some [(''Authorization'', JStr ''token'')])
       configured tr =
     \<lparr>client_after = configured, events = [], outcome = Threw (ReferenceError ''args''),
      this_after = getUser_registry\<rparr>
   \<and> GQLClientQuery Namespace configured (Some [(''Authorization'', JStr ''token'')])
        ''query {me}'' None = Inl TypeError
   \<and> GQLClientMutation Namespace configured (Some [(''Accept'', JStr ''xml'')])
        ''mutation {me}'' None = Inl TypeError
   \<and> GQLClientQuery Interop configured (Some [(''Authorization'', JStr ''token'')])
        ''query {me}'' None =
     Inr (configured\<lparr>headers :=
            Some [(''Accept'', JStr ''json''), (''Authorization'', JStr ''token'')]\<rparr>,
          Request GET ''/graphql'' ''query {me}'' None [(''Authorization'', JStr ''token'')])
   \<and> GQLClientMutation Interop configured (Some [(''Accept'', JStr ''xml'')])
        ''mutation {me}'' None =
     Inr (configured\<lparr>headers := Some [(''Accept'', JStr ''xml'')]\<rparr>,
          Request POST ''/graphql'' ''mutation {me}'' None [(''Accept'', JStr ''xml'')])"
  by (simp add: exec_unbound_args GQLClientQuery_def GQLClientMutation_def configured_def
      getUser_registry_def Let_def)

text \<open>
  C5. A single-shot run should hand a \<open>serverError\<close>, or an error stored under the
  name the entry was registered with, to the entry's \<open>onError\<close>. In the code no run
  gets that far: \<open>new GQLQuery()\<close> and \<open>new GQLMutation()\<close> throw a TypeError in the
  constructor, so \<open>gqlQuery\<close> and \<open>gqlMutator\<close> throw and call nothing. The closures
  would not do it either: they look the error up under \<open>query.name\<close>, while \<open>set\<close>
  registers the entry under \<open>query.nameOrAlias\<close>, so an error map \<open>{getUser: "denied"}\<close>
  for the entry registered as \<open>getUser\<close> is passed through without a call of \<open>onError\<close>.
\<close>

theorem single_shot_example:
  "gqlQuery b gargs gname (getUser_object (JFun (Fn ''onError'' 0))) vars hdrs c tr =
     \<lparr>client_after = c, events = [], outcome = Threw TypeError\<rparr>
   \<and> gqlMutator b gargs gname (getUser_object (JFun (Fn ''onError'' 0))) vars hdrs c tr =
     \<lparr>client_after = c, events = [], outcome = Threw TypeError\<rparr>
   \<and> gqlQuery_handleResponse (getUser_object (JFun (Fn ''onError'' 0)))
        (JArr [JObj [(''getUser'', JStr ''denied'')], JObj []]) =
      ([], Inr (JArr [JObj [(''getUser'', JStr ''denied'')], JObj []]))
   \<and> gqlMutator_handleResponse (getUser_object (JFun (Fn ''onError'' 0)))
        (JArr [JObj [(''getUser'', JStr ''denied'')]]) = ([], Inr JUndefined)"
  by (simp add: gqlQuery_def gqlMutator_def construct_throws gqlQuery_handleResponse_def
      gqlMutator_handleResponse_def getUser_object_def item_def name_key_def inherited_def)

text \<open>
  C6. For a response whose body is \<open>{errors: [{message: "boom"}, {message: "final"}]}\<close>
  \<open>exec\<close> should resolve with the error map
  \<open>{serverError: {message: "final", code: "serverError"}}\<close>. Called on an instance and
  with \<open>_\<close> bound to underscore, \<open>__handleResponse\<close> computes exactly that (third
  part). But \<open>exec\<close> never resolves with it: on a registry that holds an entry it throws
  the ReferenceError of C3 before sending, whatever \<open>_\<close> is bound to (first part), and
  \<open>__send\<close> hands \<open>this.__handleResponse\<close> to the promise as a bare function, so that
  the promise is rejected with a TypeError (second part). Where \<open>_\<close> is the module
  namespace, \<open>__send\<close> throws in the client and \<open>__handleResponse\<close> throws at
  \<open>_.isArray\<close> even on an instance (fourth and fifth part).
\<close>

theorem exec_two_errors:
  "exec GQLQuery b None gname getUser_registry vars hdrs configured (Resolves two_errors) =
     \<lparr>client_after = configured, events = [], outcome = Threw (ReferenceError ''args''),
      this_after = getUser_registry\<rparr>
   \<and> GQLQuery_send Interop getUser_registry configured None ''{getUser{name}}'' None
        (Resolves two_errors) =
     \<lparr>client_after = configured,
      events = [Sent (Request GET ''/graphql'' ''query {getUser{name}}'' None [])],
      outcome = Rejected TypeError, this_after = getUser_registry\<rparr>
   \<and> GQLQuery_handleResponse Interop (Some getUser_registry) two_errors =
     ([], Inr (getUser_registry\<lparr>errors := [(''serverError'',
                  JObj [(''message'', JStr ''final''), (''code'', JStr ''serverError'')])]\<rparr>,
               JArr [JObj [(''serverError'',
                  JObj [(''message'', JStr ''final''), (''code'', JStr ''serverError'')])]]))
   \<and> GQLQuery_send Namespace getUser_registry configured None ''{getUser{name}}'' None
        (Resolves two_errors) =
     \<lparr>client_after = configured, events = [], outcome = Threw TypeError,
      this_after = getUser_registry\<rparr>
   \<and> GQLQuery_handleResponse Namespace (Some getUser_registry) two_errors
       = ([], Inl TypeError)"
  by (simp add: exec_unbound_args GQLQuery_send_def GQLClientQuery_def settle_rejects
      configured_def getUser_registry_def reset_def two_errors_def
      GQLQuery_handleResponse_def GQLQuery_serverError_def default_object_def Let_def
      inherited_def)

text \<open>
  C7. On a registry without registered entries (an empty list, or holes only) \<open>exec\<close>
  returns a promise fulfilled with \<open>true\<close>; it sends no request, calls no callback, and
  changes neither the registry nor the configuration. This holds for both classes,
  whatever \<open>_\<close> is bound to and whatever the global object defines.
\<close>

theorem exec_without_entries:
  assumes "entries (queries r) = []"
  shows "exec cls b gargs gname r variables hdrs c tr =
           \<lparr>client_after = c, events = [], outcome = Fulfilled (JBool True), this_after = r\<rparr>"
  using assms by (simp add: exec_def getQueries_no_entries)

theorem exec_without_entries_witness:
  "exec GQLQuery Namespace None None reset [] None configured (Resolves JNull) =
     \<lparr>client_after = configured, events = [], outcome = Fulfilled (JBool True),
      this_after = reset\<rparr>
   \<and> exec GQLMutation Interop None None (reset\<lparr>queries := [None, None]\<rparr>) [] None configured
        (Rejects JNull) =
     \<lparr>client_after = configured, events = [], outcome = Fulfilled (JBool True),
      this_after = reset\<lparr>queries := [None, None]\<rparr>\<rparr>"
proof -
  have a: "entries (queries reset) = []" by (simp add: reset_def)
  have b: "entries (queries (reset\<lparr>queries := [None, None]\<rparr>)) = []" by simp
  from exec_without_entries[OF a, of GQLQuery Namespace None None "[]" None configured
      "Resolves JNull"]
    exec_without_entries[OF b, of GQLMutation Interop None None "[]" None configured
      "Rejects JNull"]
  show ?thesis by simp
qed

text \<open>
  C8. A call of \<open>set\<close> should replace the entry of its name in place, or append a new
  entry. By the module semantics of the language the code registers nothing: \<open>_\<close> is
  the namespace object of utils, \<open>_.isEmpty\<close> is \<open>undefined\<close>, and the first statement
  of \<open>set\<close> throws a TypeError, for every registry and every argument; a sequence of
  \<open>set\<close> calls leaves the fresh registry empty. Registering \<open>getUser\<close> on a fresh
  registry, and again on the registry that holds it at position 0, both throw. (Where
  an interop binds \<open>_\<close> to underscore, the same two calls append the entry and replace
  it in place.)
\<close>

theorem set_registers_nothing:
  "GQLQuery_set Namespace r q = Inl TypeError
   \<and> set_calls Namespace qs = reset
   \<and> GQLQuery_set Namespace reset (getUser_object JUndefined) = Inl TypeError
   \<and> GQLQuery_set Namespace getUser_registry (getUser_object JUndefined) = Inl TypeError
   \<and> GQLQuery_set Interop reset (getUser_object JUndefined) = Inr getUser_registry
   \<and> GQLQuery_set Interop getUser_registry (getUser_object JUndefined) = Inr getUser_registry"
  by (simp add: registry_methods_namespace set_calls_namespace)
     (simp add: GQLQuery_set_def findIndex_def reset_def getUser_object_def
       getUser_registry_def getUser_entry_def getUser_args_def)

text \<open>
  C9, as stated, fails on a store that was built with two subscribers of one name (the
  constructor keeps the list it is given): two more subscriptions under that name leave
  both, not exactly one.
\<close>

theorem subscribe_same_name_twice_counterexample:
  "subscribed (fst (GQLQueryState_subscribe
      (fst (GQLQueryState_subscribe
             \<lparr>state = [], oldState = [],
              subscribers = [Fn ''listener'' 1, Fn ''listener'' 2]\<rparr>
             (JFun (Fn ''listener'' 3))))
      (JFun (Fn ''listener'' 4)))) ''listener'' = 2"
  by (simp add: GQLQueryState_subscribe_def subscribed_def)

text \<open>
  C9, amended. In a store that holds at most one subscriber under a name, subscribing
  two named functions of that name, distinct or not, leaves exactly one subscriber under
  it. In every store, \<open>subscribe\<close> returns \<open>false\<close> and leaves the store unchanged when
  its argument is not a function or is a function without a name.
\<close>

theorem subscribe_same_name_twice:
  assumes "fname f = fname g" and "fname f \<noteq> []" and "subscribed s (fname f) \<le> 1"
  shows "subscribed (fst (GQLQueryState_subscribe (fst (GQLQueryState_subscribe s (JFun f)))
                       (JFun g))) (fname f) = 1
    \<and> (\<forall>v. (\<forall>h. v = JFun h \<longrightarrow> fname h = [])
           \<longrightarrow> GQLQueryState_subscribe s v = (s, JBool False))"
proof -
  have g: "fname g \<noteq> []" using assms(1,2) by simp
  have "subscribed (fst (GQLQueryState_subscribe (fst (GQLQueryState_subscribe s (JFun f)))
                       (JFun g))) (fname f) = 1"
    using assms
    by (auto simp: subscribe_named[OF assms(2)] subscribe_named[OF g] subscribed_append)
  then show ?thesis using subscribe_invalid by blast
qed

theorem subscribe_same_name_twice_witness:
  "subscribed (fst (GQLQueryState_subscribe
      (fst (GQLQueryState_subscribe \<lparr>state = [], oldState = [], subscribers = []\<rparr>
             (JFun (Fn ''listener'' 1))))
      (JFun (Fn ''listener'' 2)))) ''listener'' = 1
   \<and> GQLQueryState_subscribe \<lparr>state = [], oldState = [], subscribers = []\<rparr> (JFun (Fn [] 3))
       = (\<lparr>state = [], oldState = [], subscribers = []\<rparr>, JBool False)
   \<and> GQLQueryState_subscribe \<lparr>state = [], oldState = [], subscribers = []\<rparr> (JStr ''listener'')
       = (\<lparr>state = [], oldState = [], subscribers = []\<rparr>, JBool False)"
  using subscribe_same_name_twice[of "Fn ''listener'' 1" "Fn ''listener'' 2"
      "\<lparr>state = [], oldState = [], subscribers = []\<rparr>"]
  by (simp add: subscribed_def)

text \<open>
  C10. For a function \<open>f\<close> with a name, \<open>unsubscribe\<close> returns \<open>true\<close> and filters
  the subscriber list by that name: no subscriber of the name is left, the subscribers of
  every other name are kept, and the store is unchanged when none had the name. For an
  argument that is not a function, or a function without a name, it returns \<open>false\<close>
  and leaves the store unchanged; it returns \<open>false\<close> for no other argument.
\<close>

theorem unsubscribe_by_name:
  "(fname f \<noteq> [] \<longrightarrow>
      GQLQueryState_unsubscribe s (JFun f) =
        (s\<lparr>subscribers := filter (\<lambda>cb. fname cb \<noteq> fname f) (subscribers s)\<rparr>, JBool True)
      \<and> subscribed (fst (GQLQueryState_unsubscribe s (JFun f))) (fname f) = 0
      \<and> (\<forall>n. n \<noteq> fname f \<longrightarrow>
            subscribed (fst (GQLQueryState_unsubscribe s (JFun f))) n = subscribed s n)
      \<and> (subscribed s (fname f) = 0
           \<longrightarrow> GQLQueryState_unsubscribe s (JFun f) = (s, JBool True)))
   \<and> ((\<forall>h. v = JFun h \<longrightarrow> fname h = [])
        \<longrightarrow> GQLQueryState_unsubscribe s v = (s, JBool False))
   \<and> (snd (GQLQueryState_unsubscribe s v) = JBool False
        \<longrightarrow> (\<forall>h. v = JFun h \<longrightarrow> fname h = []))"
proof -
  have keep: "filter (\<lambda>cb. fname cb \<noteq> n) xs = xs"
    if "filter (\<lambda>cb. fname cb = n) xs = []" for xs n
    using that by (induction xs) (auto split: if_splits)
  have other: "filter (\<lambda>cb. fname cb = n) (filter (\<lambda>cb. fname cb \<noteq> m) xs)
                 = filter (\<lambda>cb. fname cb = n) xs"
    if "n \<noteq> m" for xs n m
    using that by (induction xs) auto
  have a: "GQLQueryState_unsubscribe s (JFun f) =
        (s\<lparr>subscribers := filter (\<lambda>cb. fname cb \<noteq> fname f) (subscribers s)\<rparr>, JBool True)"
    if "fname f \<noteq> []"
    using that by (simp add: GQLQueryState_unsubscribe_def)
  have b: "subscribed (s\<lparr>subscribers := filter (\<lambda>cb. fname cb \<noteq> fname f) (subscribers s)\<rparr>)
             (fname f) = 0"
    by (simp add: subscribed_def filter_empty_conv)
  have c: "subscribed (s\<lparr>subscribers := filter (\<lambda>cb. fname cb \<noteq> fname f) (subscribers s)\<rparr>) n
             = subscribed s n"
    if "n \<noteq> fname f" for n
    using other[OF that] by (simp add: subscribed_def)
  have d: "s\<lparr>subscribers := filter (\<lambda>cb. fname cb \<noteq> fname f) (subscribers s)\<rparr> = s"
    if "subscribed s (fname f) = 0"
    using keep[of "fname f" "subscribers s"] that by (simp add: subscribed_def)
  have e: "GQLQueryState_unsubscribe s v = (s, JBool False)"
    if "\<forall>h. v = JFun h \<longrightarrow> fname h = []"
    using that by (cases v) (auto simp: GQLQueryState_unsubscribe_def)
  have f: "\<forall>h. v = JFun h \<longrightarrow> fname h = []"
    if "snd (GQLQueryState_unsubscribe s v) = JBool False"
    using that by (cases v) (auto simp: GQLQueryState_unsubscribe_def split: if_splits)
  have p1: "fname f \<noteq> [] \<longrightarrow>
      GQLQueryState_unsubscribe s (JFun f) =
        (s\<lparr>subscribers := filter (\<lambda>cb. fname cb \<noteq> fname f) (subscribers s)\<rparr>, JBool True)
      \<and> subscribed (fst (GQLQueryState_unsubscribe s (JFun f))) (fname f) = 0
      \<and> (\<forall>n. n \<noteq> fname f \<longrightarrow>
            subscribed (fst (GQLQueryState_unsubscribe s (JFun f))) n = subscribed s n)
      \<and> (subscribed s (fname f) = 0
           \<longrightarrow> GQLQueryState_unsubscribe s (JFun f) = (s, JBool True))"
  proof
    assume n: "fname f \<noteq> []"
    show "GQLQueryState_unsubscribe s (JFun f) =
        (s\<lparr>subscribers := filter (\<lambda>cb. fname cb \<noteq> fname f) (subscribers s)\<rparr>, JBool True)
      \<and> subscribed (fst (GQLQueryState_unsubscribe s (JFun f))) (fname f) = 0
      \<and> (\<forall>n. n \<noteq> fname f \<longrightarrow>
            subscribed (fst (GQLQueryState_unsubscribe s (JFun f))) n = subscribed s n)
      \<and> (subscribed s (fname f) = 0
           \<longrightarrow> GQLQueryState_unsubscribe s (JFun f) = (s, JBool True))"
      using b c d unfolding a[OF n] by simp
  qed
  from p1 e f show ?thesis by blast
qed

theorem unsubscribe_by_name_witness:
  "GQLQueryState_unsubscribe
     \<lparr>state = [], oldState = [], subscribers = [Fn ''a'' 1, Fn ''b'' 2, Fn ''a'' 3]\<rparr>
     (JFun (Fn ''a'' 9))
     = (\<lparr>state = [], oldState = [], subscribers = [Fn ''b'' 2]\<rparr>, JBool True)
   \<and> GQLQueryState_unsubscribe
     \<lparr>state = [], oldState = [], subscribers = [Fn ''b'' 2]\<rparr> (JFun (Fn ''a'' 9))
     = (\<lparr>state = [], oldState = [], subscribers = [Fn ''b'' 2]\<rparr>, JBool True)
   \<and> GQLQueryState_unsubscribe
     \<lparr>state = [], oldState = [], subscribers = [Fn ''b'' 2]\<rparr> (JFun (Fn [] 9))
     = (\<lparr>state = [], oldState = [], subscribers = [Fn ''b'' 2]\<rparr>, JBool False)"
  using unsubscribe_by_name[of "Fn ''a'' 9"
      "\<lparr>state = [], oldState = [], subscribers = [Fn ''a'' 1, Fn ''b'' 2, Fn ''a'' 3]\<rparr>" JNull]
    unsubscribe_by_name[of "Fn ''a'' 9"
      "\<lparr>state = [], oldState = [], subscribers = [Fn ''b'' 2]\<rparr>" "JFun (Fn [] 9)"]
  by (simp add: subscribed_def)

end
